theory Spec2Isabelle
  imports Main "HOL-Library.Word"
begin

unbundle bit_operations_syntax

section \<open>Shared-memory export (gpsd/shmexport.c)\<close>

text \<open>
  A C \<open>int\<close> is a 32-bit word. The payload \<open>struct gps_data_t\<close> is declared in
  gps.h; the only field \<open>shm_update\<close> names is \<open>gps_fd\<close>, so every other field is
  kept together in one component of arbitrary type.
\<close>

type_synonym c_int = "32 word"

record 'p gps_data_t =
  gps_fd :: c_int
  other_fields :: 'p

text \<open>
  Modelled from the spec: \<open>struct shmexport_t\<close> is declared in gpsd.h, which is not
  among the sources. The spec lays the segment out as three fields in fixed order, the
  lead marker, the payload and the trail marker; \<open>shm_update\<close> calls them
  \<open>bookend1\<close>, \<open>gpsdata\<close> and \<open>bookend2\<close>, and its comment calls \<open>bookend2\<close> the
  second bookend and \<open>bookend1\<close> the first.
\<close>

record 'p shmexport_t =
  bookend1 :: c_int
  gpsdata :: "'p gps_data_t"
  bookend2 :: c_int

definition lead_marker :: "'p shmexport_t \<Rightarrow> c_int" where
  "lead_marker seg = bookend1 seg"

definition trail_marker :: "'p shmexport_t \<Rightarrow> c_int" where
  "trail_marker seg = bookend2 seg"

text \<open>
  The part of \<open>struct gps_context_t\<close> that the export uses. \<open>shmexport\<close> is the
  pointer to the attached segment (\<open>None\<close> is NULL); there is one segment, so the
  pointer carries the segment's content.
\<close>

record 'p gps_context_t =
  shmexport :: "'p shmexport_t option"
  shmid :: int

text \<open>
  The stores \<open>shm_update\<close> makes through its \<open>volatile\<close> pointer, in program order
  (the memory barriers between them keep that order), and the field each one touches.
\<close>

datatype 'p shm_store =
    Store_bookend1 c_int
  | Store_gpsdata "'p gps_data_t"
  | Store_gps_fd c_int
  | Store_bookend2 c_int

datatype shm_field = Field_bookend1 | Field_gpsdata | Field_bookend2

fun store_field :: "'p shm_store \<Rightarrow> shm_field" where
  "store_field (Store_bookend1 v) = Field_bookend1"
| "store_field (Store_gpsdata d) = Field_gpsdata"
| "store_field (Store_gps_fd v) = Field_gpsdata"
| "store_field (Store_bookend2 v) = Field_bookend2"

fun apply_store :: "'p shm_store \<Rightarrow> 'p shmexport_t \<Rightarrow> 'p shmexport_t" where
  "apply_store (Store_bookend1 v) seg = seg\<lparr>bookend1 := v\<rparr>"
| "apply_store (Store_gpsdata d) seg = seg\<lparr>gpsdata := d\<rparr>"
| "apply_store (Store_gps_fd v) seg = seg\<lparr>gpsdata := (gpsdata seg)\<lparr>gps_fd := v\<rparr>\<rparr>"
| "apply_store (Store_bookend2 v) seg = seg\<lparr>bookend2 := v\<rparr>"

text \<open>
  The publisher's state: the function-local \<open>static int tick\<close>, the context, and the
  log of the stores made so far (oldest first).
\<close>

record 'p publisher =
  tick :: c_int
  gps_context :: "'p gps_context_t"
  stores :: "'p shm_store list"

definition shared_store :: "'p shm_store \<Rightarrow> 'p publisher \<Rightarrow> 'p publisher" where
  "shared_store s st =
     st\<lparr>gps_context := (gps_context st)\<lparr>shmexport := map_option (apply_store s) (shmexport (gps_context st))\<rparr>,
        stores := stores st @ [s]\<rparr>"

text \<open>
  \<open>shm_update\<close>, statement by statement. \<open>SHM_PSEUDO_FD\<close> is a macro of libgps.h,
  which is not among the sources; it is the first parameter. \<open>++tick\<close> wraps at the
  width of \<open>int\<close>.
\<close>

definition shm_update :: "c_int \<Rightarrow> 'p publisher \<Rightarrow> 'p gps_data_t \<Rightarrow> 'p publisher" where
  "shm_update SHM_PSEUDO_FD st gpsdata_in =
     (if shmexport (gps_context st) \<noteq> None then
        let st1 = st\<lparr>tick := tick st + 1\<rparr>;
            st2 = shared_store (Store_bookend2 (tick st1)) st1;
            st3 = shared_store (Store_gpsdata gpsdata_in) st2;
            st4 = shared_store (Store_gps_fd SHM_PSEUDO_FD) st3;
            st5 = shared_store (Store_bookend1 (tick st4)) st4
        in st5
      else st)"

text \<open>The stores of one publish: what the log holds beyond the log before it.\<close>

definition publish_stores :: "c_int \<Rightarrow> 'p publisher \<Rightarrow> 'p gps_data_t \<Rightarrow> 'p shm_store list" where
  "publish_stores SHM_PSEUDO_FD st gpsdata_in =
     drop (length (stores st)) (stores (shm_update SHM_PSEUDO_FD st gpsdata_in))"

text \<open>The segment a publisher is attached to, for a publisher that is attached.\<close>

definition attached :: "'p shmexport_t \<Rightarrow> c_int \<Rightarrow> 'p publisher" where
  "attached seg t = \<lparr>tick = t, gps_context = \<lparr>shmexport = Some seg, shmid = 0\<rparr>, stores = []\<rparr>"

definition zero_segment :: "unit shmexport_t" where
  "zero_segment = \<lparr>bookend1 = 0, gpsdata = \<lparr>gps_fd = 0, other_fields = ()\<rparr>, bookend2 = 0\<rparr>"


section \<open>The control tool (clients/gpsdctl.c)\<close>

text \<open>
  A C string is the list of its characters before the terminating NUL. The tool's
  effects are system calls; a run is modelled by the list of the calls it makes, in
  order, with their arguments. What each call returns is not decided by the program:
  it is read from an environment that has one entry for each call site of
  \<open>gpsd_control\<close> (no call site is in a loop, so each is reached at most once).
\<close>

type_synonym mode_t = "32 word"

datatype priority = LOG_ERR | LOG_NOTICE | LOG_INFO

text \<open>The messages passed to \<open>syslog\<close>, one constructor for each format string.\<close>

datatype log_msg =
    Msg_gpsd_control string string  \<comment> \<open>gpsd_control(action=%s, arg=%s)\<close>
  | Msg_reached_running_gpsd        \<comment> \<open>reached a running gpsd\<close>
  | Msg_launching string            \<comment> \<open>launching %s\<close>
  | Msg_launch_failed               \<comment> \<open>launch of gpsd failed\<close>
  | Msg_cant_reach_gpsd             \<comment> \<open>can't reach gpsd\<close>
  | Msg_unknown_action string       \<comment> \<open>unknown action "%s"\<close>
  | Msg_requires_action_and_argument int  \<comment> \<open>requires action and argument (%d)\<close>
  | Msg_invalid_action string       \<comment> \<open>invalid action '%s'\<close>
  | Msg_invalid_path string         \<comment> \<open>invalid path '%s'\<close>

datatype event =
    Syslog priority log_msg
  | Access string          \<comment> \<open>access(path, F_OK)\<close>
  | Localsocket string     \<comment> \<open>netlib_localsocket(path, SOCK_STREAM): the connect attempt\<close>
  | System string          \<comment> \<open>system(command)\<close>
  | Stat string            \<comment> \<open>stat(path, &sb)\<close>
  | Chmod string mode_t    \<comment> \<open>chmod(path, mode)\<close>
  | Write int string       \<comment> \<open>write(fd, buf, strlen(buf))\<close>
  | Read int nat           \<comment> \<open>read(fd, buf, count)\<close>
  | Close int              \<comment> \<open>close(fd)\<close>

text \<open>
  \<open>stat\<close> either succeeds, returns 0 and fills the buffer (\<open>Some\<close> of the mode it
  stores in \<open>st_mode\<close>), or fails, returns -1 and leaves the buffer as it was.
  \<open>sb_indeterminate\<close> is what the uninitialised \<open>struct stat sb\<close> holds in
  \<open>st_mode\<close> before the call.
\<close>

record sys_env =
  access1 :: int          \<comment> \<open>line 36\<close>
  localsocket1 :: int     \<comment> \<open>line 37\<close>
  system_status :: int    \<comment> \<open>line 43\<close>
  access2 :: int          \<comment> \<open>line 47\<close>
  localsocket2 :: int     \<comment> \<open>line 48\<close>
  stat_result :: "mode_t option"   \<comment> \<open>line 72\<close>
  sb_indeterminate :: mode_t
  chmod_status :: int     \<comment> \<open>line 73\<close>
  write_status :: int     \<comment> \<open>lines 75 and 80, after the cast to int\<close>
  read_status :: int      \<comment> \<open>lines 77 and 82\<close>

definition stat_return :: "mode_t option \<Rightarrow> int" where
  "stat_return r = (case r of Some m \<Rightarrow> 0 | None \<Rightarrow> - 1)"

definition st_mode_after_stat :: "sys_env \<Rightarrow> mode_t" where
  "st_mode_after_stat env = (case stat_result env of Some m \<Rightarrow> m | None \<Rightarrow> sb_indeterminate env)"

definition S_IRUSR :: mode_t where "S_IRUSR = 256"
definition S_IWUSR :: mode_t where "S_IWUSR = 128"
definition S_IRGRP :: mode_t where "S_IRGRP = 32"
definition S_IWGRP :: mode_t where "S_IWGRP = 16"

text \<open>\<open>snprintf(buf, sizeof(buf), ...)\<close> into \<open>char buf[512]\<close> keeps 511 characters.\<close>

definition snprintf_buf :: "string \<Rightarrow> string" where
  "snprintf_buf s = take 511 s"

definition CRLF :: string where
  "CRLF = [CHR 0x0D, CHR 0x0A]"

text \<open>
  Lines 50 to 53 of \<open>gpsd_control\<close>: with a negative \<open>connect\<close> the function returns
  -1 (\<open>Inl\<close>), otherwise it goes on with the descriptor (\<open>Inr\<close>).
\<close>

definition check_connect :: "event list \<Rightarrow> int \<Rightarrow> event list \<times> (int + int)" where
  "check_connect tr connect =
     (if 0 > connect then (tr @ [Syslog LOG_ERR Msg_cant_reach_gpsd], Inl (- 1))
      else (tr, Inr connect))"

text \<open>
  Lines 31 to 53 of \<open>gpsd_control\<close>. \<open>connect\<close> starts as -1; the \<open>&&\<close> calls
  \<open>netlib_localsocket\<close> only when \<open>access\<close> returned 0, and assigns \<open>connect\<close>
  then.
\<close>

definition reach_gpsd ::
  "string \<Rightarrow> string \<Rightarrow> sys_env \<Rightarrow> string \<Rightarrow> string \<Rightarrow> event list \<times> (int + int)" where
  "reach_gpsd control_socket gpsd_options env action argument =
     (let tr0 = [Syslog LOG_ERR (Msg_gpsd_control action argument), Access control_socket];
          tr1 = (if access1 env = 0 then tr0 @ [Localsocket control_socket] else tr0);
          connect = (if access1 env = 0 then localsocket1 env else - 1)
      in if access1 env = 0 \<and> 0 \<le> connect then
           check_connect (tr1 @ [Syslog LOG_INFO Msg_reached_running_gpsd]) connect
         else if action = ''add'' then
           let buf = snprintf_buf (''gpsd '' @ gpsd_options @ '' -F '' @ control_socket);
               tr2 = tr1 @ [Syslog LOG_NOTICE (Msg_launching buf), System buf]
           in if system_status env \<noteq> 0 then
                (tr2 @ [Syslog LOG_ERR Msg_launch_failed], Inl (- 1))
              else if access2 env = 0 then
                check_connect (tr2 @ [Access control_socket, Localsocket control_socket])
                  (localsocket2 env)
              else check_connect (tr2 @ [Access control_socket]) connect
         else check_connect tr1 connect)"

text \<open>Lines 64 to 89 of \<open>gpsd_control\<close>, with the connection \<open>connect\<close>.\<close>

definition pass_command :: "sys_env \<Rightarrow> int \<Rightarrow> string \<Rightarrow> string \<Rightarrow> int \<times> event list" where
  "pass_command env connect action argument =
     (if action = ''add'' then
        let tr_stat = [Stat argument];
            tr_chmod = (if stat_return (stat_result env) \<noteq> 1
                        then [Chmod argument
                                (st_mode_after_stat env OR S_IRUSR OR S_IWUSR OR S_IRGRP OR S_IWGRP)]
                        else []);
            buf = snprintf_buf (''+'' @ argument @ CRLF)
        in (write_status env,
            tr_stat @ tr_chmod @ [Write connect buf, Read connect 12, Close connect])
      else if action = ''remove'' then
        let buf = snprintf_buf (''-'' @ argument @ CRLF)
        in (write_status env, [Write connect buf, Read connect 12, Close connect])
      else (- 1, [Syslog LOG_ERR (Msg_unknown_action action), Close connect]))"

text \<open>
  \<open>gpsd_control\<close>: the return value and the calls made. The static variables
  \<open>control_socket\<close> and \<open>gpsd_options\<close> are the first two parameters.
\<close>

definition gpsd_control ::
  "string \<Rightarrow> string \<Rightarrow> sys_env \<Rightarrow> string \<Rightarrow> string \<Rightarrow> int \<times> event list" where
  "gpsd_control control_socket gpsd_options env action argument =
     (case reach_gpsd control_socket gpsd_options env action argument of
        (tr, Inl status) \<Rightarrow> (status, tr)
      | (tr, Inr connect) \<Rightarrow>
          (case pass_command env connect action argument of
             (status, tr') \<Rightarrow> (status, tr @ tr')))"

definition DEFAULT_GPSD_TEST_SOCKET :: string where
  "DEFAULT_GPSD_TEST_SOCKET = ''/tmp/gpsd.sock''"

definition EXIT_SUCCESS :: int where "EXIT_SUCCESS = 0"
definition EXIT_FAILURE :: int where "EXIT_FAILURE = 1"

text \<open>
  Lines 118 to 124 of \<open>main\<close>: the values of the static variables \<open>control_socket\<close>
  and \<open>gpsd_options\<close> when \<open>gpsd_control\<close> is called. \<open>DEFAULT_GPSD_SOCKET\<close> is a
  macro of gpsd.h, which is not among the sources; it is a parameter.
\<close>

definition control_socket_of :: "string \<Rightarrow> string option \<Rightarrow> nat \<Rightarrow> string" where
  "control_socket_of DEFAULT_GPSD_SOCKET sockenv euid =
     (case sockenv of
        Some s \<Rightarrow> s
      | None \<Rightarrow> if 0 \<noteq> euid then DEFAULT_GPSD_TEST_SOCKET else DEFAULT_GPSD_SOCKET)"

definition gpsd_options_of :: "string option \<Rightarrow> string" where
  "gpsd_options_of optenv = (case optenv of Some s \<Rightarrow> s | None \<Rightarrow> [])"

text \<open>
  \<open>main\<close>: the exit status and the calls made. \<open>argv\<close> has \<open>argc\<close> entries;
  \<open>getenv\<close> gives \<open>None\<close> for NULL; \<open>GPS_PATH_MAX\<close> is a macro of gps.h, which is
  not among the sources, and is a parameter.
\<close>

definition main_gpsdctl ::
  "string \<Rightarrow> nat \<Rightarrow> string list \<Rightarrow> (string \<Rightarrow> string option) \<Rightarrow> nat \<Rightarrow> sys_env
     \<Rightarrow> int \<times> event list" where
  "main_gpsdctl DEFAULT_GPSD_SOCKET GPS_PATH_MAX argv getenv geteuid env =
     (let sockenv = getenv ''GPSD_SOCKET'';
          optenv = getenv ''GPSD_OPTIONS''
      in if 3 \<noteq> length argv then
           (EXIT_FAILURE,
            [Syslog LOG_ERR (Msg_requires_action_and_argument (int (length argv)))])
         else if 3 > length (argv ! 1) \<or> 7 < length (argv ! 1) then
           (EXIT_FAILURE, [Syslog LOG_ERR (Msg_invalid_action (argv ! 1))])
         else if GPS_PATH_MAX \<le> length (argv ! 2) then
           (EXIT_FAILURE, [Syslog LOG_ERR (Msg_invalid_path (argv ! 2))])
         else
           (case gpsd_control (control_socket_of DEFAULT_GPSD_SOCKET sockenv geteuid)
                   (gpsd_options_of optenv) env (argv ! 1) (argv ! 2) of
              (status, tr) \<Rightarrow> (if 0 > status then EXIT_FAILURE else EXIT_SUCCESS, tr)))"

text \<open>The calls of a run that act on a socket: the connect attempt and the descriptor I/O.\<close>

fun is_socket_io :: "event \<Rightarrow> bool" where
  "is_socket_io (Localsocket p) = True"
| "is_socket_io (Write fd b) = True"
| "is_socket_io (Read fd n) = True"
| "is_socket_io (Close fd) = True"
| "is_socket_io e = False"

fun is_transfer :: "event \<Rightarrow> bool" where
  "is_transfer (Write fd b) = True"
| "is_transfer (Read fd n) = True"
| "is_transfer e = False"

fun is_launch :: "event \<Rightarrow> bool" where
  "is_launch (System c) = True"
| "is_launch e = False"

fun is_connect :: "event \<Rightarrow> bool" where
  "is_connect (Localsocket p) = True"
| "is_connect e = False"

section \<open>The endpoint parser (libgps/gpsdclient.c, gpsd_source_spec)\<close>

text \<open>
  \<open>gpsd_source_spec\<close> works in place: it stores NUL characters into the caller's
  buffer and returns pointers into it. The buffer is a list of characters that holds
  the string and its terminating NUL. A pointer is NULL, the address of a string
  literal of the program, or an offset into the argument buffer.
\<close>

definition NUL :: char where
  "NUL = CHR 0x00"

datatype ptr = Null | Literal string | Arg nat

text \<open>
  Modelled from the spec: \<open>struct fixsource_t\<close> is declared in gpsdclient.h, which is
  not among the sources; these are the four members \<open>gpsd_source_spec\<close> assigns.
\<close>

record fixsource_t =
  spec :: ptr
  server :: ptr
  port :: ptr
  device :: ptr

text \<open>
  \<open>strchr(buf + p, c)\<close>: the offset of the first \<open>c\<close> at or after \<open>p\<close> and
  before the terminating NUL, or NULL.
\<close>

fun strchr_from :: "char list \<Rightarrow> char \<Rightarrow> nat \<Rightarrow> nat option" where
  "strchr_from [] c i = None"
| "strchr_from (x # xs) c i =
     (if x = c then Some i else if x = NUL then None else strchr_from xs c (Suc i))"

definition strchr :: "char list \<Rightarrow> nat \<Rightarrow> char \<Rightarrow> nat option" where
  "strchr buf p c = strchr_from (drop p buf) c p"

text \<open>The C string that starts at offset \<open>p\<close> of the buffer.\<close>

definition string_at :: "char list \<Rightarrow> nat \<Rightarrow> string" where
  "string_at buf p = takeWhile (\<lambda>x. x \<noteq> NUL) (drop p buf)"

text \<open>
  Lines 232 to 265: the body of \<open>if (arg != NULL)\<close>, on the buffer \<open>arg\<close> points to.
  The buffer ends with a NUL, as every C string does; \<open>strchr\<close> stops at the first
  NUL, so each offset that is read (\<open>colon1 + 1\<close>, \<open>colon2 + 1\<close>) lies inside it.
\<close>

definition parse_fields :: "char list \<Rightarrow> fixsource_t \<Rightarrow> char list \<times> fixsource_t" where
  "parse_fields buf source =
     (let src1 = source\<lparr>spec := Arg 0\<rparr>;
          skipto = (if buf ! 0 = CHR ''[''
                    then (case strchr buf 0 (CHR '']'') of Some rbrk \<Rightarrow> rbrk | None \<Rightarrow> 0)
                    else 0)
      in case strchr buf skipto (CHR '':'') of
           Some colon1 \<Rightarrow>
             let buf1 = buf[colon1 := NUL];
                 src2 = (if colon1 \<noteq> 0 then src1\<lparr>server := Arg 0\<rparr> else src1);
                 src3 = (if NUL \<noteq> buf1 ! (colon1 + 1) \<and> CHR '':'' \<noteq> buf1 ! (colon1 + 1)
                         then src2\<lparr>port := Arg (colon1 + 1)\<rparr> else src2)
             in (case strchr buf1 (colon1 + 1) (CHR '':'') of
                   Some colon2 \<Rightarrow>
                     let buf2 = buf1[colon2 := NUL]
                     in (buf2, if NUL \<noteq> buf2 ! (colon2 + 1)
                               then src3\<lparr>device := Arg (colon2 + 1)\<rparr> else src3)
                 | None \<Rightarrow> (buf1, src3))
         | None \<Rightarrow>
             (case strchr buf 0 (CHR ''/'') of
                Some slash \<Rightarrow> (buf, src1\<lparr>device := Arg 0\<rparr>)
              | None \<Rightarrow> (buf, src1\<lparr>server := Arg 0\<rparr>)))"

text \<open>
  Lines 268 to 273. The server is the literal \<open>"localhost"\<close>, which does not begin
  with a bracket, or a pointer into the buffer.
\<close>

definition strip_brackets :: "char list \<Rightarrow> fixsource_t \<Rightarrow> char list \<times> fixsource_t" where
  "strip_brackets buf source =
     (case server source of
        Arg p \<Rightarrow>
          if buf ! p = CHR ''['' then
            (case strchr buf p (CHR '']'') of
               Some rbrk \<Rightarrow> (buf[rbrk := NUL], source\<lparr>server := Arg (p + 1)\<rparr>)
             | None \<Rightarrow> (buf, source\<lparr>server := Arg (p + 1)\<rparr>))
          else (buf, source)
      | Literal s \<Rightarrow> (buf, source)
      | Null \<Rightarrow> (buf, source))"

text \<open>
  \<open>gpsd_source_spec\<close>. \<open>arg\<close> is \<open>None\<close> for NULL and otherwise the buffer it points
  to; the result is the buffer after the call and the filled structure.
  \<open>DEFAULT_GPSD_PORT\<close> is a macro of gps.h, which is not among the sources; it is the
  first parameter. With a NULL argument the server is the literal, and lines 268 to
  273 change nothing.
\<close>

definition gpsd_source_spec ::
  "string \<Rightarrow> char list option \<Rightarrow> fixsource_t \<Rightarrow> char list option \<times> fixsource_t" where
  "gpsd_source_spec DEFAULT_GPSD_PORT arg source =
     (let src0 = source\<lparr>server := Literal ''localhost'',
                        port := Literal DEFAULT_GPSD_PORT,
                        device := Null\<rparr>
      in case arg of
           None \<Rightarrow> (None, src0)
         | Some buf \<Rightarrow>
             (case parse_fields buf src0 of
                (buf1, src1) \<Rightarrow>
                  (case strip_brackets buf1 src1 of
                     (buf2, src2) \<Rightarrow> (Some buf2, src2))))"

text \<open>What a caller reads through a pointer of the result: \<open>None\<close> for NULL.\<close>

fun deref :: "char list \<Rightarrow> ptr \<Rightarrow> string option" where
  "deref buf Null = None"
| "deref buf (Literal s) = Some s"
| "deref buf (Arg p) = Some (string_at buf p)"

definition fields_of ::
  "char list \<Rightarrow> fixsource_t \<Rightarrow> string option \<times> string option \<times> string option" where
  "fields_of buf source = (deref buf (server source), deref buf (port source), deref buf (device source))"

text \<open>A structure before the call; the call assigns every member that is read afterwards.\<close>

definition blank_source :: fixsource_t where
  "blank_source = \<lparr>spec = Null, server = Null, port = Null, device = Null\<rparr>"

text \<open>
  The three fields of a result of \<open>gpsd_source_spec\<close>, the buffer a call leaves
  behind, and the fields parsed from a buffer.
\<close>

definition result_fields ::
  "char list option \<times> fixsource_t \<Rightarrow> string option \<times> string option \<times> string option" where
  "result_fields r =
     (case r of (Some buf, src) \<Rightarrow> fields_of buf src | (None, src) \<Rightarrow> fields_of [] src)"


definition parsed_fields ::
  "string \<Rightarrow> char list \<Rightarrow> string option \<times> string option \<times> string option" where
  "parsed_fields DEFAULT_GPSD_PORT buf =
     result_fields (gpsd_source_spec DEFAULT_GPSD_PORT (Some buf) blank_source)"

text \<open>Parsing a string: the buffer is the string followed by its NUL.\<close>

definition parse_endpoint ::
  "string \<Rightarrow> string \<Rightarrow> string option \<times> string option \<times> string option" where
  "parse_endpoint DEFAULT_GPSD_PORT s = parsed_fields DEFAULT_GPSD_PORT (s @ [NUL])"

section \<open>The export-method registry (libgps/gpsdclient.c)\<close>

text \<open>
  Modelled from the spec: \<open>struct exportmethod_t\<close> is declared in gpsdclient.h, which
  is not among the sources. It has three string members: the name, the channel
  identifier (NULL for the socket method) and the description.
\<close>

record exportmethod_t =
  name :: string
  channel_identifier :: "string option"
  description :: string

text \<open>
  The static table, as the three build options select its rows. The macros
  \<open>GPSD_DBUS_EXPORT\<close> and \<open>GPSD_SHARED_MEMORY\<close> are not among the sources and are
  parameters.
\<close>

definition exportmethods :: "bool \<Rightarrow> bool \<Rightarrow> bool \<Rightarrow> string \<Rightarrow> string \<Rightarrow> exportmethod_t list" where
  "exportmethods DBUS_EXPORT_ENABLE SHM_EXPORT_ENABLE SOCKET_EXPORT_ENABLE
       GPSD_DBUS_EXPORT GPSD_SHARED_MEMORY =
     (if DBUS_EXPORT_ENABLE
      then [\<lparr>name = ''dbus'', channel_identifier = Some GPSD_DBUS_EXPORT,
             description = ''DBUS broadcast''\<rparr>] else [])
     @ (if SHM_EXPORT_ENABLE
        then [\<lparr>name = ''shm'', channel_identifier = Some GPSD_SHARED_MEMORY,
               description = ''shared memory''\<rparr>] else [])
     @ (if SOCKET_EXPORT_ENABLE
        then [\<lparr>name = ''sockets'', channel_identifier = None,
               description = ''JSON via sockets''\<rparr>] else [])"

text \<open>
  The loop of \<open>export_lookup\<close> over a table: \<open>mp\<close> and \<open>method\<close> are pointers to
  rows, here row numbers, and \<open>None\<close> is NULL.
\<close>

function export_lookup_loop ::
  "exportmethod_t list \<Rightarrow> string \<Rightarrow> nat \<Rightarrow> nat option \<Rightarrow> nat option" where
  "export_lookup_loop tbl nm mp method =
     (if mp < length tbl
      then export_lookup_loop tbl nm (Suc mp) (if name (tbl ! mp) = nm then Some mp else method)
      else method)"
  by pat_completeness auto
termination
  by (relation "measure (\<lambda>(tbl, nm, mp, method). length tbl - mp)") auto

definition export_lookup :: "exportmethod_t list \<Rightarrow> string \<Rightarrow> nat option" where
  "export_lookup tbl nm = export_lookup_loop tbl nm 0 None"

definition export_default :: "exportmethod_t list \<Rightarrow> nat option" where
  "export_default tbl = (if int (length tbl) > 0 then Some 0 else None)"

text \<open>The row a returned pointer points to.\<close>

definition row_at :: "exportmethod_t list \<Rightarrow> nat option \<Rightarrow> exportmethod_t option" where
  "row_at tbl r = (case r of None \<Rightarrow> None | Some i \<Rightarrow> if i < length tbl then Some (tbl ! i) else None)"

section \<open>Notions used to state the properties\<close>

text \<open>The probing calls: \<open>access\<close> on the socket path and the connect attempt.\<close>

fun is_probe :: "event \<Rightarrow> bool" where
  "is_probe (Access p) = True"
| "is_probe (Localsocket p) = True"
| "is_probe e = False"

text \<open>The calls of a run that come after its first \<open>system\<close> call.\<close>

definition after_launch :: "event list \<Rightarrow> event list" where
  "after_launch tr = tl (dropWhile (\<lambda>e. \<not> is_launch e) tr)"

text \<open>
  Two environments. In the first a daemon is running: the socket exists and the
  connect succeeds. In the second there is none: the socket is missing, the launch
  succeeds, the socket is there afterwards; \<open>stat\<close> of the device fails.
\<close>

definition env_running :: sys_env where
  "env_running =
     \<lparr>access1 = 0, localsocket1 = 3, system_status = 0, access2 = 0, localsocket2 = 3,
      stat_result = Some 8592, sb_indeterminate = 0, chmod_status = 0,
      write_status = 15, read_status = 3\<rparr>"

definition env_absent :: sys_env where
  "env_absent =
     \<lparr>access1 = - 1, localsocket1 = - 1, system_status = 0, access2 = 0, localsocket2 = 3,
      stat_result = None, sb_indeterminate = 4095, chmod_status = - 1,
      write_status = 15, read_status = 3\<rparr>"

definition no_env :: "string \<Rightarrow> string option" where
  "no_env v = None"

definition long_options_env :: "string \<Rightarrow> string option" where
  "long_options_env v = (if v = ''GPSD_OPTIONS'' then Some (replicate 600 (CHR ''x'')) else None)"



text \<open>
  \<open>last_match tbl nm n r\<close>: among the first \<open>n\<close> rows of the table, \<open>r\<close> is the
  last one named \<open>nm\<close>, or NULL when none is.
\<close>

definition last_match :: "exportmethod_t list \<Rightarrow> string \<Rightarrow> nat \<Rightarrow> nat option \<Rightarrow> bool" where
  "last_match tbl nm n r =
     (case r of
        None \<Rightarrow> \<forall>j<n. name (tbl ! j) \<noteq> nm
      | Some i \<Rightarrow> i < n \<and> name (tbl ! i) = nm \<and> (\<forall>j<n. i < j \<longrightarrow> name (tbl ! j) \<noteq> nm))"

text \<open>A table in which two rows share the name \<open>"sockets"\<close>.\<close>

definition two_sockets :: "exportmethod_t list" where
  "two_sockets =
     [\<lparr>name = ''sockets'', channel_identifier = None, description = ''first''\<rparr>,
      \<lparr>name = ''shm'', channel_identifier = Some ''GPSD_SHM'', description = ''shared memory''\<rparr>,
      \<lparr>name = ''sockets'', channel_identifier = None, description = ''second''\<rparr>]"

section \<open>Properties of the shared-memory export\<close>

lemma shm_update_attached:
  assumes "shmexport (gps_context st) = Some seg"
  shows "shm_update fd st d =
           st\<lparr>tick := tick st + 1,
              gps_context := (gps_context st)\<lparr>shmexport :=
                 Some \<lparr>bookend1 = tick st + 1, gpsdata = d\<lparr>gps_fd := fd\<rparr>, bookend2 = tick st + 1\<rparr>\<rparr>,
              stores := stores st @ [Store_bookend2 (tick st + 1), Store_gpsdata d,
                                     Store_gps_fd fd, Store_bookend1 (tick st + 1)]\<rparr>"
  using assms by (simp add: shm_update_def shared_store_def Let_def)

lemma publish_stores_attached:
  assumes "shmexport (gps_context st) = Some seg"
  shows "publish_stores fd st d =
           [Store_bookend2 (tick st + 1), Store_gpsdata d, Store_gps_fd fd, Store_bookend1 (tick st + 1)]"
  by (simp add: publish_stores_def shm_update_attached [OF assms])

text \<open>
  C1 (as amended). On every publish with an attached segment, \<open>shm_update\<close> increments
  its tick and then makes four stores, in this order: the trail marker \<open>bookend2\<close>
  gets the new tick, the payload gets the whole input, the payload's \<open>gps_fd\<close> gets
  the pseudo descriptor, and the lead marker \<open>bookend1\<close> gets the new tick. So the
  first store of a publish touches the trail marker and the last one the lead marker;
  the segment after the publish is the segment before it with these four stores
  applied, and both its markers equal the new tick.
\<close>

theorem shm_update_store_order:
  assumes "shmexport (gps_context st) = Some seg"
  shows "tick (shm_update fd st d) = tick st + 1
       \<and> publish_stores fd st d =
           [Store_bookend2 (tick st + 1), Store_gpsdata d, Store_gps_fd fd, Store_bookend1 (tick st + 1)]
       \<and> store_field (hd (publish_stores fd st d)) = Field_bookend2
       \<and> store_field (last (publish_stores fd st d)) = Field_bookend1
       \<and> shmexport (gps_context (shm_update fd st d)) = Some (fold apply_store (publish_stores fd st d) seg)
       \<and> lead_marker (fold apply_store (publish_stores fd st d) seg) = tick st + 1
       \<and> trail_marker (fold apply_store (publish_stores fd st d) seg) = tick st + 1"
  by (simp add: publish_stores_attached [OF assms] shm_update_attached [OF assms]
        lead_marker_def trail_marker_def)

theorem shm_update_store_order_witness:
  "shmexport (gps_context (attached zero_segment 41)) = Some zero_segment
   \<and> publish_stores 7 (attached zero_segment 41) \<lparr>gps_fd = 5, other_fields = ()\<rparr> =
       [Store_bookend2 42, Store_gpsdata \<lparr>gps_fd = 5, other_fields = ()\<rparr>, Store_gps_fd 7, Store_bookend1 42]
   \<and> tick (shm_update 7 (attached zero_segment 41) \<lparr>gps_fd = 5, other_fields = ()\<rparr>) = 42"
  using shm_update_store_order [of "attached zero_segment 41" zero_segment 7 "\<lparr>gps_fd = 5, other_fields = ()\<rparr>"]
  by (simp add: attached_def)

text \<open>
  The order the claim gives, lead marker first and trail marker last, is not the
  order of the code: on a zeroed segment and tick 0, the first store of the publish
  is not to \<open>bookend1\<close> and the last is not to \<open>bookend2\<close>.
\<close>

theorem shm_update_lead_first_counterexample:
  "\<not> (store_field (hd (publish_stores 7 (attached zero_segment 0) \<lparr>gps_fd = 5, other_fields = ()\<rparr>))
         = Field_bookend1
     \<and> store_field (last (publish_stores 7 (attached zero_segment 0) \<lparr>gps_fd = 5, other_fields = ()\<rparr>))
         = Field_bookend2)"
  by (simp add: publish_stores_def shm_update_def shared_store_def attached_def Let_def)




section \<open>Properties of the control tool\<close>

lemmas ctl_defs = gpsd_control_def reach_gpsd_def pass_command_def check_connect_def Let_def

lemmas main_defs = main_gpsdctl_def control_socket_of_def gpsd_options_of_def
  EXIT_FAILURE_def EXIT_SUCCESS_def

lemma reach_gpsd_env_stat:
  "reach_gpsd sock opts (env\<lparr>stat_result := r, sb_indeterminate := g, chmod_status := c\<rparr>) action arg
     = reach_gpsd sock opts env action arg"
  by (simp add: reach_gpsd_def Let_def)

lemma snprintf_buf_fits: "length s \<le> 511 \<Longrightarrow> snprintf_buf s = s"
  by (simp add: snprintf_buf_def)

lemma main_gpsdctl_accepted:
  assumes "3 \<le> length action" and "length action \<le> 7" and "length path < GPS_PATH_MAX"
  shows "main_gpsdctl dflt GPS_PATH_MAX [prog, action, path] getenv euid env
           = (if 0 > fst (gpsd_control (control_socket_of dflt (getenv ''GPSD_SOCKET'') euid)
                          (gpsd_options_of (getenv ''GPSD_OPTIONS'')) env action path)
              then EXIT_FAILURE else EXIT_SUCCESS,
              snd (gpsd_control (control_socket_of dflt (getenv ''GPSD_SOCKET'') euid)
                          (gpsd_options_of (getenv ''GPSD_OPTIONS'')) env action path))"
  using assms by (simp add: main_gpsdctl_def split: prod.splits)

lemma gpsd_control_unknown:
  assumes "action \<noteq> ''add''" and "action \<noteq> ''remove''"
  shows "gpsd_control sock opts env action arg =
           (- 1,
            [Syslog LOG_ERR (Msg_gpsd_control action arg), Access sock]
            @ (if access1 env = 0 then [Localsocket sock] else [])
            @ (if access1 env = 0 \<and> 0 \<le> localsocket1 env
               then [Syslog LOG_INFO Msg_reached_running_gpsd,
                     Syslog LOG_ERR (Msg_unknown_action action), Close (localsocket1 env)]
               else [Syslog LOG_ERR Msg_cant_reach_gpsd]))"
  using assms by (simp add: ctl_defs)

text \<open>
  C2 (as amended). For every action string other than "add" and "remove",
  \<open>gpsd_control\<close> launches nothing, writes and reads no byte on the control socket
  and returns -1, and the tool exits with failure. The rejection is not before the
  probe: \<open>access\<close> is called on the socket path and, when it returns 0, one connect
  attempt is made. The error "unknown action" is logged exactly when that connect
  succeeded, and the connection is then closed; otherwise the error is "can't reach
  gpsd". An action shorter than 3 or longer than 7 characters never reaches
  \<open>gpsd_control\<close>: \<open>main\<close> logs "invalid action" and makes no other call.
\<close>

theorem unknown_action_rejected:
  assumes "action \<noteq> ''add''" and "action \<noteq> ''remove''"
  shows "fst (gpsd_control sock opts env action arg) = - 1
       \<and> filter is_launch (snd (gpsd_control sock opts env action arg)) = []
       \<and> filter is_transfer (snd (gpsd_control sock opts env action arg)) = []
       \<and> filter is_connect (snd (gpsd_control sock opts env action arg))
           = (if access1 env = 0 then [Localsocket sock] else [])
       \<and> (Syslog LOG_ERR (Msg_unknown_action action) \<in> set (snd (gpsd_control sock opts env action arg))
            \<longleftrightarrow> access1 env = 0 \<and> 0 \<le> localsocket1 env)
       \<and> (Syslog LOG_ERR Msg_cant_reach_gpsd \<in> set (snd (gpsd_control sock opts env action arg))
            \<longleftrightarrow> \<not> (access1 env = 0 \<and> 0 \<le> localsocket1 env))
       \<and> fst (main_gpsdctl dflt pmax [prog, action, arg] getenv euid env) = EXIT_FAILURE
       \<and> filter is_launch (snd (main_gpsdctl dflt pmax [prog, action, arg] getenv euid env)) = []
       \<and> filter is_transfer (snd (main_gpsdctl dflt pmax [prog, action, arg] getenv euid env)) = []
       \<and> (length action < 3 \<or> 7 < length action \<longrightarrow>
            snd (main_gpsdctl dflt pmax [prog, action, arg] getenv euid env)
              = [Syslog LOG_ERR (Msg_invalid_action action)])"
  by (simp add: gpsd_control_unknown [OF assms] main_gpsdctl_def EXIT_FAILURE_def EXIT_SUCCESS_def)

theorem unknown_action_rejected_witness:
  "''foo'' \<noteq> ''add'' \<and> ''foo'' \<noteq> ''remove''
   \<and> fst (gpsd_control ''/var/run/gpsd.sock'' [] env_running ''foo'' ''/dev/ttyUSB0'') = - 1
   \<and> filter is_transfer (snd (gpsd_control ''/var/run/gpsd.sock'' [] env_running ''foo'' ''/dev/ttyUSB0'')) = []
   \<and> filter is_connect (snd (gpsd_control ''/var/run/gpsd.sock'' [] env_running ''foo'' ''/dev/ttyUSB0''))
       = [Localsocket ''/var/run/gpsd.sock'']"
  using unknown_action_rejected [of "''foo''" "''/var/run/gpsd.sock''" "[]" env_running "''/dev/ttyUSB0''"]
  by (simp add: env_running_def)

text \<open>
  The claim as stated fails: with a daemon running, the action "foo" leads to a
  connect attempt on the control socket.
\<close>

theorem unknown_action_connect_counterexample:
  "\<not> (filter is_connect
        (snd (main_gpsdctl ''/var/run/gpsd.sock'' 128 [''gpsdctl'', ''foo'', ''/dev/ttyUSB0'']
                no_env 0 env_running)) = [])"
  by (simp add: main_defs ctl_defs env_running_def no_env_def)

text \<open>
  C3. \<open>main\<close> passes a device path on only when it is shorter than \<open>GPS_PATH_MAX\<close>;
  with \<open>GPS_PATH_MAX\<close> at most 509 the command line fits the 512-byte buffer. Then
  for every such path and a connection \<open>fd\<close> reached with action "add" or "remove",
  the calls that follow on the socket are exactly: one write of the bytes "+", the
  path, 0x0D, 0x0A for add, and of "-", the path, 0x0D, 0x0A for remove, one read of
  at most 12 bytes, and the close. A path of \<open>GPS_PATH_MAX\<close> characters or more is
  refused by \<open>main\<close> before any other call.
\<close>

theorem control_command_bytes:
  assumes "GPS_PATH_MAX \<le> 509"
    and "action = ''add'' \<or> action = ''remove''"
  shows "(length path < GPS_PATH_MAX
          \<and> reach_gpsd (control_socket_of dflt (getenv ''GPSD_SOCKET'') euid)
               (gpsd_options_of (getenv ''GPSD_OPTIONS'')) env action path = (tr, Inr fd) \<longrightarrow>
            snd (main_gpsdctl dflt GPS_PATH_MAX [prog, action, path] getenv euid env)
              = tr @ snd (pass_command env fd action path)
            \<and> filter is_socket_io (snd (pass_command env fd action path))
              = [Write fd ((if action = ''add'' then ''+'' else ''-'') @ path @ [CHR 0x0D, CHR 0x0A]),
                 Read fd 12, Close fd])
       \<and> (GPS_PATH_MAX \<le> length path \<longrightarrow>
            snd (main_gpsdctl dflt GPS_PATH_MAX [prog, action, path] getenv euid env)
              = [Syslog LOG_ERR (Msg_invalid_path path)])"
proof -
  have len: "3 \<le> length action" "length action \<le> 7" using assms(2) by auto
  have refused: "snd (main_gpsdctl dflt GPS_PATH_MAX [prog, action, path] getenv euid env)
              = [Syslog LOG_ERR (Msg_invalid_path path)]" if "GPS_PATH_MAX \<le> length path"
    using that len by (simp add: main_gpsdctl_def)
  have passed: "snd (main_gpsdctl dflt GPS_PATH_MAX [prog, action, path] getenv euid env)
              = tr @ snd (pass_command env fd action path)"
    if "length path < GPS_PATH_MAX"
      and "reach_gpsd (control_socket_of dflt (getenv ''GPSD_SOCKET'') euid)
               (gpsd_options_of (getenv ''GPSD_OPTIONS'')) env action path = (tr, Inr fd)"
    using that by (simp add: main_gpsdctl_accepted [OF len] gpsd_control_def split: prod.splits)
  have bytes: "filter is_socket_io (snd (pass_command env fd action path))
              = [Write fd ((if action = ''add'' then ''+'' else ''-'') @ path @ [CHR 0x0D, CHR 0x0A]),
                 Read fd 12, Close fd]" if "length path < GPS_PATH_MAX"
  proof -
    have "snprintf_buf (c # path @ CRLF) = c # path @ [CHR 0x0D, CHR 0x0A]" for c
      using assms(1) that snprintf_buf_fits [of "c # path @ CRLF"] by (simp add: CRLF_def)
    then show ?thesis using assms(2) by (auto simp: pass_command_def Let_def)
  qed
  show ?thesis using refused passed bytes by blast
qed

theorem control_command_bytes_witness:
  "(128::nat) \<le> 509 \<and> length ''/dev/ttyUSB0'' < 128
   \<and> reach_gpsd ''/var/run/gpsd.sock'' [] env_running ''remove'' ''/dev/ttyUSB0''
       = ([Syslog LOG_ERR (Msg_gpsd_control ''remove'' ''/dev/ttyUSB0''),
           Access ''/var/run/gpsd.sock'', Localsocket ''/var/run/gpsd.sock'',
           Syslog LOG_INFO Msg_reached_running_gpsd], Inr 3)
   \<and> filter is_socket_io (snd (pass_command env_running 3 ''remove'' ''/dev/ttyUSB0''))
       = [Write 3 [CHR ''-'', CHR ''/'', CHR ''d'', CHR ''e'', CHR ''v'', CHR ''/'', CHR ''t'',
                   CHR ''t'', CHR ''y'', CHR ''U'', CHR ''S'', CHR ''B'', CHR ''0'',
                   CHR 0x0D, CHR 0x0A],
          Read 3 12, Close 3]"
proof -
  have r: "reach_gpsd (control_socket_of ''/var/run/gpsd.sock'' (no_env ''GPSD_SOCKET'') 0)
             (gpsd_options_of (no_env ''GPSD_OPTIONS'')) env_running ''remove'' ''/dev/ttyUSB0''
       = ([Syslog LOG_ERR (Msg_gpsd_control ''remove'' ''/dev/ttyUSB0''),
           Access ''/var/run/gpsd.sock'', Localsocket ''/var/run/gpsd.sock'',
           Syslog LOG_INFO Msg_reached_running_gpsd], Inr 3)"
    by (simp add: reach_gpsd_def check_connect_def Let_def env_running_def no_env_def
          control_socket_of_def gpsd_options_of_def)
  show ?thesis
    using r control_command_bytes [of 128 "''remove''" "''/dev/ttyUSB0''" "''/var/run/gpsd.sock''"
             no_env 0 env_running _ 3 "''gpsdctl''"]
    by (simp add: no_env_def control_socket_of_def gpsd_options_of_def)
qed

lemma gpsd_control_launch:
  assumes "\<not> (access1 env = 0 \<and> 0 \<le> localsocket1 env)"
  shows "\<exists>pre. filter is_launch pre = []
       \<and> snd (gpsd_control sock opts env ''add'' arg)
           = pre @ System (snprintf_buf (''gpsd '' @ opts @ '' -F '' @ sock))
               # (if system_status env \<noteq> 0 then [Syslog LOG_ERR Msg_launch_failed]
                  else Access sock
                    # (if access2 env = 0
                       then Localsocket sock
                         # (if 0 > localsocket2 env then [Syslog LOG_ERR Msg_cant_reach_gpsd]
                            else snd (pass_command env (localsocket2 env) ''add'' arg))
                       else [Syslog LOG_ERR Msg_cant_reach_gpsd]))
       \<and> (system_status env \<noteq> 0 \<or> access2 env \<noteq> 0 \<or> localsocket2 env < 0
            \<longrightarrow> fst (gpsd_control sock opts env ''add'' arg) = - 1)"
proof -
  let ?cmd = "snprintf_buf (''gpsd '' @ opts @ '' -F '' @ sock)"
  let ?pre = "[Syslog LOG_ERR (Msg_gpsd_control ''add'' arg), Access sock]
              @ (if access1 env = 0 then [Localsocket sock] else [])
              @ [Syslog LOG_NOTICE (Msg_launching ?cmd)]"
  have "filter is_launch ?pre = []" by simp
  moreover have "snd (gpsd_control sock opts env ''add'' arg)
           = ?pre @ System ?cmd
               # (if system_status env \<noteq> 0 then [Syslog LOG_ERR Msg_launch_failed]
                  else Access sock
                    # (if access2 env = 0
                       then Localsocket sock
                         # (if 0 > localsocket2 env then [Syslog LOG_ERR Msg_cant_reach_gpsd]
                            else snd (pass_command env (localsocket2 env) ''add'' arg))
                       else [Syslog LOG_ERR Msg_cant_reach_gpsd]))"
    using assms by (auto simp: gpsd_control_def reach_gpsd_def check_connect_def Let_def
                      split: prod.splits)
  moreover have "system_status env \<noteq> 0 \<or> access2 env \<noteq> 0 \<or> localsocket2 env < 0
            \<longrightarrow> fst (gpsd_control sock opts env ''add'' arg) = - 1"
    using assms by (auto simp: gpsd_control_def reach_gpsd_def check_connect_def Let_def
                      split: prod.splits)
  ultimately show ?thesis by blast
qed


lemma pass_command_no_launch: "filter is_launch (snd (pass_command env fd action arg)) = []"
  by (simp add: pass_command_def Let_def)

lemma pass_command_no_probe: "filter is_probe (snd (pass_command env fd action arg)) = []"
  by (simp add: pass_command_def Let_def)

lemma after_launch_append:
  assumes "filter is_launch pre = []"
  shows "after_launch (pre @ System c # rest) = rest"
proof -
  have "\<forall>e\<in>set pre. \<not> is_launch e" using assms by (simp add: filter_empty_conv)
  then have "dropWhile (\<lambda>e. \<not> is_launch e) (pre @ System c # rest) = System c # rest"
    by simp
  then show ?thesis by (simp add: after_launch_def)
qed

text \<open>
  The launch path of \<open>gpsd_control\<close>, for a probe that does not reach the socket:
  one \<open>system\<close> call with the first 511 bytes of "gpsd options -F socket-path",
  which is the whole command line when options and path together have at most 502
  characters; after a launch that succeeds one more \<open>access\<close> and, if the socket is
  there, one connect attempt; -1 when the launch fails, the socket is missing or
  the connect fails; no launch and -1 for any action other than "add".
\<close>

lemma launch_fallback:
  assumes "\<not> (access1 env = 0 \<and> 0 \<le> localsocket1 env)"
  shows "filter is_launch (snd (gpsd_control sock opts env ''add'' arg))
           = [System (take 511 (''gpsd '' @ opts @ '' -F '' @ sock))]
       \<and> (length opts + length sock \<le> 502 \<longrightarrow>
            take 511 (''gpsd '' @ opts @ '' -F '' @ sock) = ''gpsd '' @ opts @ '' -F '' @ sock)
       \<and> (system_status env \<noteq> 0 \<longrightarrow>
            after_launch (snd (gpsd_control sock opts env ''add'' arg))
              = [Syslog LOG_ERR Msg_launch_failed]
            \<and> fst (gpsd_control sock opts env ''add'' arg) = - 1)
       \<and> (system_status env = 0 \<longrightarrow>
            filter is_probe (after_launch (snd (gpsd_control sock opts env ''add'' arg)))
              = Access sock # (if access2 env = 0 then [Localsocket sock] else []))
       \<and> (system_status env = 0 \<and> (access2 env \<noteq> 0 \<or> localsocket2 env < 0) \<longrightarrow>
            fst (gpsd_control sock opts env ''add'' arg) = - 1
            \<and> last (snd (gpsd_control sock opts env ''add'' arg)) = Syslog LOG_ERR Msg_cant_reach_gpsd)
       \<and> (action \<noteq> ''add'' \<longrightarrow>
            filter is_launch (snd (gpsd_control sock opts env action arg)) = []
            \<and> fst (gpsd_control sock opts env action arg) = - 1)"
proof -
  let ?tr = "snd (gpsd_control sock opts env ''add'' arg)"
  let ?cmd = "snprintf_buf (''gpsd '' @ opts @ '' -F '' @ sock)"
  from gpsd_control_launch [OF assms, of sock opts arg]
  obtain pre where pre: "filter is_launch pre = []"
    and tr: "?tr = pre @ System ?cmd
               # (if system_status env \<noteq> 0 then [Syslog LOG_ERR Msg_launch_failed]
                  else Access sock
                    # (if access2 env = 0
                       then Localsocket sock
                         # (if 0 > localsocket2 env then [Syslog LOG_ERR Msg_cant_reach_gpsd]
                            else snd (pass_command env (localsocket2 env) ''add'' arg))
                       else [Syslog LOG_ERR Msg_cant_reach_gpsd]))"
    and fail: "system_status env \<noteq> 0 \<or> access2 env \<noteq> 0 \<or> localsocket2 env < 0
            \<longrightarrow> fst (gpsd_control sock opts env ''add'' arg) = - 1"
    by blast
  have once: "filter is_launch ?tr = [System (take 511 (''gpsd '' @ opts @ '' -F '' @ sock))]"
    unfolding tr using pre by (simp add: pass_command_no_launch snprintf_buf_def)
  have fits: "length opts + length sock \<le> 502 \<longrightarrow>
            take 511 (''gpsd '' @ opts @ '' -F '' @ sock) = ''gpsd '' @ opts @ '' -F '' @ sock"
    by simp
  have failed: "system_status env \<noteq> 0 \<longrightarrow>
            after_launch ?tr = [Syslog LOG_ERR Msg_launch_failed]
            \<and> fst (gpsd_control sock opts env ''add'' arg) = - 1"
    unfolding tr using fail by (simp add: after_launch_append [OF pre])
  have retry: "system_status env = 0 \<longrightarrow>
            filter is_probe (after_launch ?tr)
              = Access sock # (if access2 env = 0 then [Localsocket sock] else [])"
    unfolding tr by (simp add: after_launch_append [OF pre] pass_command_no_probe)
  have missing: "system_status env = 0 \<and> (access2 env \<noteq> 0 \<or> localsocket2 env < 0) \<longrightarrow>
            fst (gpsd_control sock opts env ''add'' arg) = - 1
            \<and> last ?tr = Syslog LOG_ERR Msg_cant_reach_gpsd"
    unfolding tr using fail by auto
  have other: "action \<noteq> ''add'' \<longrightarrow>
            filter is_launch (snd (gpsd_control sock opts env action arg)) = []
            \<and> fst (gpsd_control sock opts env action arg) = - 1"
    using assms by (auto simp: ctl_defs)
  show ?thesis using once fits failed retry missing other by blast
qed

text \<open>
  C6. The launch is to carry the configured options and name exactly the configured
  socket path. Lemma \<open>launch_fallback\<close> shows that of every run whose command line
  fits the buffer. The lengths of \<open>GPSD_OPTIONS\<close> and \<open>GPSD_SOCKET\<close> are not
  checked, unlike those of the two arguments, and with 600 characters in
  \<open>GPSD_OPTIONS\<close> the code departs from it: the command passed to \<open>system\<close> is
  "gpsd " followed by 506 of the option characters, without "-F" and the socket
  path.
\<close>

theorem launch_truncated_at_long_options:
  "filter is_launch
     (snd (main_gpsdctl ''/var/run/gpsd.sock'' 128 [''gpsdctl'', ''add'', ''/dev/ttyUSB0'']
             long_options_env 0 env_absent))
     = [System (''gpsd '' @ replicate 506 (CHR ''x''))]
   \<and> ''gpsd '' @ replicate 506 (CHR ''x'')
       \<noteq> ''gpsd '' @ replicate 600 (CHR ''x'') @ '' -F '' @ ''/var/run/gpsd.sock''"
proof -
  let ?full = "''gpsd '' @ replicate 600 (CHR ''x'') @ '' -F '' @ ''/var/run/gpsd.sock''"
  have cut: "snprintf_buf ?full = ''gpsd '' @ replicate 506 (CHR ''x'')"
    by (simp add: snprintf_buf_def min_def)
  have run: "filter is_launch
        (snd (main_gpsdctl ''/var/run/gpsd.sock'' 128 [''gpsdctl'', ''add'', ''/dev/ttyUSB0'']
                long_options_env 0 env_absent))
      = [System (snprintf_buf ?full)]"
    by (simp add: main_defs ctl_defs env_absent_def long_options_env_def)
  have ne: "''gpsd '' @ replicate 506 (CHR ''x'') \<noteq> ?full"
  proof
    assume "''gpsd '' @ replicate 506 (CHR ''x'') = ?full"
    then have "length (''gpsd '' @ replicate 506 (CHR ''x'')) = length ?full"
      by (rule arg_cong)
    then show False by simp
  qed
  show ?thesis using run ne unfolding cut by blast
qed

text \<open>
  C9. On the "add" path with a connection, the guard of the \<open>chmod\<close> compares the
  return value of \<open>stat\<close>, which is 0 or -1, with 1, so it always holds: after
  \<open>stat\<close> the \<open>chmod\<close> is always called, and when \<open>stat\<close> failed its mode is
  computed from what the uninitialised buffer held. Whatever \<open>stat\<close> and \<open>chmod\<close>
  return, the bytes written and read on the socket and the return value are the
  same; the return value is that of the \<open>write\<close>.
\<close>

theorem chmod_regardless_of_stat:
  assumes "reach_gpsd sock opts env ''add'' arg = (tr, Inr fd)"
  shows "stat_return (stat_result env) \<noteq> 1
       \<and> snd (gpsd_control sock opts env ''add'' arg)
           = tr @ [Stat arg,
                   Chmod arg (st_mode_after_stat env OR S_IRUSR OR S_IWUSR OR S_IRGRP OR S_IWGRP),
                   Write fd (snprintf_buf (''+'' @ arg @ CRLF)), Read fd 12, Close fd]
       \<and> (stat_result env = None \<longrightarrow> st_mode_after_stat env = sb_indeterminate env)
       \<and> fst (gpsd_control sock opts env ''add'' arg) = write_status env
       \<and> filter is_transfer
             (snd (gpsd_control sock opts (env\<lparr>stat_result := r, sb_indeterminate := g, chmod_status := c\<rparr>)
                     ''add'' arg))
           = filter is_transfer (snd (gpsd_control sock opts env ''add'' arg))
       \<and> fst (gpsd_control sock opts (env\<lparr>stat_result := r, sb_indeterminate := g, chmod_status := c\<rparr>)
                ''add'' arg)
           = fst (gpsd_control sock opts env ''add'' arg)"
proof -
  have sr: "stat_return (stat_result e) \<noteq> 1" for e :: sys_env
    by (simp add: stat_return_def split: option.splits)
  have run: "gpsd_control sock opts e ''add'' arg
           = (write_status e,
              tr @ [Stat arg,
                   Chmod arg (st_mode_after_stat e OR S_IRUSR OR S_IWUSR OR S_IRGRP OR S_IWGRP),
                   Write fd (snprintf_buf (''+'' @ arg @ CRLF)), Read fd 12, Close fd])"
    if "reach_gpsd sock opts e ''add'' arg = (tr, Inr fd)" for e
    using that sr [of e] by (simp add: gpsd_control_def pass_command_def Let_def)
  note r1 = run [OF assms]
  note r2 = run [of "env\<lparr>stat_result := r, sb_indeterminate := g, chmod_status := c\<rparr>",
                 unfolded reach_gpsd_env_stat, OF assms]
  show ?thesis
    using sr [of env] by (simp add: r1 r2 st_mode_after_stat_def)
qed

theorem chmod_regardless_of_stat_witness:
  "reach_gpsd ''/var/run/gpsd.sock'' [] (env_running\<lparr>stat_result := None, sb_indeterminate := 4095\<rparr>)
       ''add'' ''/dev/ttyUSB0''
     = ([Syslog LOG_ERR (Msg_gpsd_control ''add'' ''/dev/ttyUSB0''),
         Access ''/var/run/gpsd.sock'', Localsocket ''/var/run/gpsd.sock'',
         Syslog LOG_INFO Msg_reached_running_gpsd], Inr 3)
   \<and> snd (gpsd_control ''/var/run/gpsd.sock'' [] (env_running\<lparr>stat_result := None, sb_indeterminate := 4095\<rparr>)
            ''add'' ''/dev/ttyUSB0'')
     = [Syslog LOG_ERR (Msg_gpsd_control ''add'' ''/dev/ttyUSB0''),
        Access ''/var/run/gpsd.sock'', Localsocket ''/var/run/gpsd.sock'',
        Syslog LOG_INFO Msg_reached_running_gpsd,
        Stat ''/dev/ttyUSB0'', Chmod ''/dev/ttyUSB0'' 4095,
        Write 3 (''+/dev/ttyUSB0'' @ CRLF), Read 3 12, Close 3]"
proof -
  have r: "reach_gpsd ''/var/run/gpsd.sock'' [] (env_running\<lparr>stat_result := None, sb_indeterminate := 4095\<rparr>)
       ''add'' ''/dev/ttyUSB0''
     = ([Syslog LOG_ERR (Msg_gpsd_control ''add'' ''/dev/ttyUSB0''),
         Access ''/var/run/gpsd.sock'', Localsocket ''/var/run/gpsd.sock'',
         Syslog LOG_INFO Msg_reached_running_gpsd], Inr 3)"
    by (simp add: reach_gpsd_def check_connect_def Let_def env_running_def)
  show ?thesis
    using r chmod_regardless_of_stat [OF r]
    by (simp add: st_mode_after_stat_def env_running_def snprintf_buf_def CRLF_def
          S_IRUSR_def S_IWUSR_def S_IRGRP_def S_IWGRP_def)
qed

lemma gpsd_control_trace:
  "snd (gpsd_control s opts env action path)
     = fst (reach_gpsd s opts env action path)
       @ (case snd (reach_gpsd s opts env action path) of
            Inl status \<Rightarrow> []
          | Inr connect \<Rightarrow> snd (pass_command env connect action path))"
  by (simp add: gpsd_control_def split: prod.splits sum.splits)

lemma reach_gpsd_probe_list:
  "filter is_probe (fst (reach_gpsd s opts env action path))
     = Access s # (if access1 env = 0 then [Localsocket s] else [])
       @ (if \<not> (access1 env = 0 \<and> 0 \<le> localsocket1 env) \<and> action = ''add''
             \<and> system_status env = 0
          then Access s # (if access2 env = 0 then [Localsocket s] else [])
          else [])"
  by (simp add: reach_gpsd_def check_connect_def Let_def)

lemma reach_gpsd_probes:
  "filter is_probe (fst (reach_gpsd s opts env action path)) \<noteq> []
   \<and> hd (filter is_probe (fst (reach_gpsd s opts env action path))) = Access s
   \<and> set (filter is_probe (fst (reach_gpsd s opts env action path))) \<subseteq> {Access s, Localsocket s}"
  unfolding reach_gpsd_probe_list by auto

lemma gpsd_control_probes:
  "filter is_probe (snd (gpsd_control s opts env action path)) \<noteq> []
   \<and> hd (filter is_probe (snd (gpsd_control s opts env action path))) = Access s
   \<and> set (filter is_probe (snd (gpsd_control s opts env action path))) \<subseteq> {Access s, Localsocket s}"
proof -
  have "filter is_probe (snd (gpsd_control s opts env action path))
          = filter is_probe (fst (reach_gpsd s opts env action path))"
    by (simp add: gpsd_control_trace pass_command_no_probe split: sum.splits)
  then show ?thesis using reach_gpsd_probes [of s opts env action path] by simp
qed

text \<open>
  C10. For arguments that \<open>main\<close> accepts, \<open>gpsd_control\<close> runs with this socket
  path: the value of \<open>GPSD_SOCKET\<close> when it is set; otherwise "/tmp/gpsd.sock" when
  the effective user id is not 0, and the compiled-in default when it is 0. The
  first probing call of the run is \<open>access\<close> on that path, and every probing call of
  the run names that path.
\<close>

theorem control_socket_resolution:
  assumes "3 \<le> length action" and "length action \<le> 7" and "length path < GPS_PATH_MAX"
  shows "main_gpsdctl dflt GPS_PATH_MAX [prog, action, path] getenv euid env
           = (if 0 > fst (gpsd_control (control_socket_of dflt (getenv ''GPSD_SOCKET'') euid)
                          (gpsd_options_of (getenv ''GPSD_OPTIONS'')) env action path)
              then EXIT_FAILURE else EXIT_SUCCESS,
              snd (gpsd_control (control_socket_of dflt (getenv ''GPSD_SOCKET'') euid)
                          (gpsd_options_of (getenv ''GPSD_OPTIONS'')) env action path))
       \<and> (getenv ''GPSD_SOCKET'' = None \<and> euid \<noteq> 0 \<longrightarrow>
            control_socket_of dflt (getenv ''GPSD_SOCKET'') euid = ''/tmp/gpsd.sock'')
       \<and> (getenv ''GPSD_SOCKET'' = None \<and> euid = 0 \<longrightarrow>
            control_socket_of dflt (getenv ''GPSD_SOCKET'') euid = dflt)
       \<and> (\<forall>s. getenv ''GPSD_SOCKET'' = Some s \<longrightarrow>
            control_socket_of dflt (getenv ''GPSD_SOCKET'') euid = s)
       \<and> hd (filter is_probe (snd (main_gpsdctl dflt GPS_PATH_MAX [prog, action, path] getenv euid env)))
           = Access (control_socket_of dflt (getenv ''GPSD_SOCKET'') euid)
       \<and> set (filter is_probe (snd (main_gpsdctl dflt GPS_PATH_MAX [prog, action, path] getenv euid env)))
           \<subseteq> {Access (control_socket_of dflt (getenv ''GPSD_SOCKET'') euid),
               Localsocket (control_socket_of dflt (getenv ''GPSD_SOCKET'') euid)}"
  unfolding main_gpsdctl_accepted [OF assms]
  using gpsd_control_probes [of "control_socket_of dflt (getenv ''GPSD_SOCKET'') euid"
          "gpsd_options_of (getenv ''GPSD_OPTIONS'')" env action path]
  by (simp add: control_socket_of_def DEFAULT_GPSD_TEST_SOCKET_def)

theorem control_socket_resolution_witness:
  "3 \<le> length ''remove'' \<and> length ''remove'' \<le> 7 \<and> length ''/dev/ttyUSB0'' < 128
   \<and> no_env ''GPSD_SOCKET'' = None \<and> (1000::nat) \<noteq> 0
   \<and> hd (filter is_probe (snd (main_gpsdctl ''/var/run/gpsd.sock'' 128
            [''gpsdctl'', ''remove'', ''/dev/ttyUSB0''] no_env 1000 env_running)))
       = Access ''/tmp/gpsd.sock''"
proof -
  have h: "3 \<le> length ''remove''" "length ''remove'' \<le> 7" "length ''/dev/ttyUSB0'' < 128"
    by simp_all
  note t = control_socket_resolution [OF h, of "''/var/run/gpsd.sock''" "''gpsdctl''" no_env 1000
             env_running]
  have e: "no_env ''GPSD_SOCKET'' = None" by (simp add: no_env_def)
  from t e have a: "control_socket_of ''/var/run/gpsd.sock'' (no_env ''GPSD_SOCKET'') 1000
                     = ''/tmp/gpsd.sock''"
    by simp
  from t have b: "hd (filter is_probe (snd (main_gpsdctl ''/var/run/gpsd.sock'' 128
            [''gpsdctl'', ''remove'', ''/dev/ttyUSB0''] no_env 1000 env_running)))
       = Access (control_socket_of ''/var/run/gpsd.sock'' (no_env ''GPSD_SOCKET'') 1000)"
    by (elim conjE)
  show ?thesis using h e b unfolding a by simp
qed

section \<open>Properties of the endpoint parser\<close>



lemma strchr_from_absent:
  "c \<notin> set xs \<Longrightarrow> c \<noteq> NUL \<Longrightarrow> strchr_from (xs @ NUL # ys) c k = None"
  by (induction xs arbitrary: k) auto

lemma strchr_from_first:
  "c \<notin> set xs \<Longrightarrow> NUL \<notin> set xs \<Longrightarrow> strchr_from (xs @ c # ys) c k = Some (k + length xs)"
  by (induction xs arbitrary: k) auto

lemma string_at_0: "NUL \<notin> set h \<Longrightarrow> string_at (h @ NUL # ys) 0 = h"
  by (auto simp: string_at_def takeWhile_tail)

lemma string_at_skip: "string_at (xs @ ys) (length xs) = string_at ys 0"
  by (simp add: string_at_def)


































lemmas parse_defs = parse_endpoint_def parsed_fields_def result_fields_def gpsd_source_spec_def
  parse_fields_def strip_brackets_def fields_of_def blank_source_def Let_def

lemma parse_examples:
  "parse_endpoint p ''localhost'' = (Some ''localhost'', Some p, None)"
  "parse_endpoint p ''localhost:2947:/dev/ttyUSB0'' = (Some ''localhost'', Some ''2947'', Some ''/dev/ttyUSB0'')"
  "parse_endpoint p ''[fe80::1]:2947'' = (Some ''fe80::1'', Some ''2947'', None)"
  "parse_endpoint p ''/dev/ttyUSB0'' = (Some ''localhost'', Some p, Some ''/dev/ttyUSB0'')"
  "parse_endpoint p ''host::'' = (Some ''host'', Some p, None)"
  by (simp_all add: parse_defs strchr_def string_at_def NUL_def)

lemma parse_trailing_colon:
  assumes "h \<noteq> []" and "hd h \<noteq> CHR ''[''" and "CHR '':'' \<notin> set h" and "NUL \<notin> set h"
  shows "parse_endpoint p (h @ '':'') = (Some h, Some p, None)"
proof -
  have h0: "h ! 0 \<noteq> CHR ''[''" using assms(1,2) by (simp add: hd_conv_nth)
  have c1: "strchr (h @ [CHR '':'', NUL]) 0 (CHR '':'') = Some (length h)"
    using strchr_from_first [of "CHR '':''" h "[NUL]" 0] assms by (simp add: strchr_def)
  have u1: "(h @ [CHR '':'', NUL])[length h := NUL] = h @ [NUL, NUL]"
    by (simp add: list_update_append)
  have c2: "strchr (h @ [NUL, NUL]) (Suc (length h)) (CHR '':'') = None"
    by (simp add: strchr_def NUL_def)
  have f: "string_at (h @ [NUL, NUL]) 0 = h"
    using string_at_0 [of h "[NUL]"] assms(4) by simp
  show ?thesis
    using assms(1) h0 by (simp add: parse_defs c1 u1 c2 f nth_append)
qed

lemma parse_two_trailing_colons:
  assumes "h \<noteq> []" and "hd h \<noteq> CHR ''[''" and "CHR '':'' \<notin> set h" and "NUL \<notin> set h"
  shows "parse_endpoint p (h @ ''::'') = (Some h, Some p, None)"
proof -
  have h0: "h ! 0 \<noteq> CHR ''[''" using assms(1,2) by (simp add: hd_conv_nth)
  have c1: "strchr (h @ [CHR '':'', CHR '':'', NUL]) 0 (CHR '':'') = Some (length h)"
    using strchr_from_first [of "CHR '':''" h "[CHR '':'', NUL]" 0] assms by (simp add: strchr_def)
  have u1: "(h @ [CHR '':'', CHR '':'', NUL])[length h := NUL] = h @ [NUL, CHR '':'', NUL]"
    by (simp add: list_update_append)
  have c2: "strchr (h @ [NUL, CHR '':'', NUL]) (Suc (length h)) (CHR '':'') = Some (Suc (length h))"
    by (simp add: strchr_def)
  have u2: "(h @ [NUL, CHR '':'', NUL])[Suc (length h) := NUL] = h @ [NUL, NUL, NUL]"
    by (simp add: list_update_append)
  have f: "string_at (h @ [NUL, NUL, NUL]) 0 = h"
    using string_at_0 [of h "[NUL, NUL]"] assms(4) by simp
  show ?thesis
    using assms(1) h0 by (simp add: parse_defs c1 u1 c2 u2 f nth_append)
qed

lemma parse_port_trailing_colon:
  assumes "h \<noteq> []" and "hd h \<noteq> CHR ''[''" and "CHR '':'' \<notin> set h" and "NUL \<notin> set h"
    and "q \<noteq> []" and "CHR '':'' \<notin> set q" and "NUL \<notin> set q"
  shows "parse_endpoint p (h @ '':'' @ q @ '':'') = (Some h, Some q, None)"
proof -
  have h0: "h ! 0 \<noteq> CHR ''[''" using assms(1,2) by (simp add: hd_conv_nth)
  have q0: "q ! 0 \<noteq> NUL" "q ! 0 \<noteq> CHR '':''"
    using assms(5,6,7) by (cases q; auto)+
  have c1: "strchr (h @ CHR '':'' # q @ [CHR '':'', NUL]) 0 (CHR '':'') = Some (length h)"
    using strchr_from_first [of "CHR '':''" h "q @ [CHR '':'', NUL]" 0] assms by (simp add: strchr_def)
  have u1: "(h @ CHR '':'' # q @ [CHR '':'', NUL])[length h := NUL] = h @ NUL # q @ [CHR '':'', NUL]"
    by (simp add: list_update_append)
  have c2: "strchr (h @ NUL # q @ [CHR '':'', NUL]) (Suc (length h)) (CHR '':'')
              = Some (Suc (length h + length q))"
    using strchr_from_first [of "CHR '':''" q "[NUL]" "Suc (length h)"] assms by (simp add: strchr_def)
  have u2: "(h @ NUL # q @ [CHR '':'', NUL])[Suc (length h + length q) := NUL] = h @ NUL # q @ [NUL, NUL]"
    by (simp add: list_update_append list_update_code)
  have n2: "(h @ NUL # q @ [NUL, NUL]) ! Suc (Suc (length h + length q)) = NUL"
    by (simp add: nth_append nth_Cons')
  have n1: "(h @ NUL # q @ [CHR '':'', NUL]) ! Suc (length h) = q ! 0"
    using assms(5) by (simp add: nth_append nth_Cons')
  have f: "string_at (h @ NUL # q @ [NUL, NUL]) 0 = h"
    using string_at_0 [of h "q @ [NUL, NUL]"] assms(4) by simp
  have g: "string_at (h @ NUL # q @ [NUL, NUL]) (Suc (length h)) = q"
    using string_at_skip [of "h @ [NUL]" "q @ [NUL, NUL]"] string_at_0 [of q "[NUL]"] assms(7)
    by simp
  have h0': "(h @ CHR '':'' # q @ [CHR '':'', NUL]) ! 0 \<noteq> CHR ''[''"
    using assms(1) h0 by (simp add: nth_append)
  have h0'': "(h @ NUL # q @ [NUL, NUL]) ! 0 \<noteq> CHR ''[''"
    using assms(1) h0 by (simp add: nth_append)
  show ?thesis
    using assms(1) q0
    by (simp add: parse_defs h0' h0'' c1 u1 c2 u2 n1 n2 f g)
qed

lemma parse_bracketed:
  assumes "CHR '']'' \<notin> set h" and "CHR ''/'' \<notin> set h" and "NUL \<notin> set h"
  shows "parse_endpoint p (''['' @ h @ '']'') = (Some h, Some p, None)"
proof -
  let ?buf = "CHR ''['' # h @ [CHR '']'', NUL]"
  have r: "strchr ?buf 0 (CHR '']'') = Some (Suc (length h))"
    using strchr_from_first [of "CHR '']''" "CHR ''['' # h" "[NUL]" 0] assms by (simp add: strchr_def NUL_def)
  have c: "strchr ?buf (Suc (length h)) (CHR '':'') = None"
    by (simp add: strchr_def NUL_def)
  have sl: "strchr ?buf 0 (CHR ''/'') = None"
    using strchr_from_absent [of "CHR ''/''" "CHR ''['' # h @ [CHR '']'']" "[]" 0] assms
    by (simp add: strchr_def NUL_def)
  have u: "?buf[Suc (length h) := NUL] = CHR ''['' # h @ [NUL, NUL]"
    by (simp add: list_update_append)
  have f: "string_at (CHR ''['' # h @ [NUL, NUL]) (Suc 0) = h"
    using string_at_0 [of h "[NUL]"] assms(3) by (simp add: string_at_def)
  show ?thesis
    by (simp add: parse_defs r c sl u f)
qed

text \<open>
  C5. With \<open>p\<close> the default port, "localhost" as the default server and no device
  as \<open>None\<close>, the parser gives the five listed results. A trailing colon with
  nothing after it leaves the default in place: for a host \<open>h\<close> and a port \<open>q\<close>
  without colon, "h:" and "h::" give the default port and no device, and "h:q:"
  gives the port \<open>q\<close> and no device. A bracketed server with nothing after the
  closing bracket has its brackets stripped.
\<close>

theorem endpoint_parser_examples:
  "parse_endpoint p ''localhost'' = (Some ''localhost'', Some p, None)
   \<and> parse_endpoint p ''localhost:2947:/dev/ttyUSB0''
       = (Some ''localhost'', Some ''2947'', Some ''/dev/ttyUSB0'')
   \<and> parse_endpoint p ''[fe80::1]:2947'' = (Some ''fe80::1'', Some ''2947'', None)
   \<and> parse_endpoint p ''/dev/ttyUSB0'' = (Some ''localhost'', Some p, Some ''/dev/ttyUSB0'')
   \<and> parse_endpoint p ''host::'' = (Some ''host'', Some p, None)
   \<and> (h \<noteq> [] \<and> hd h \<noteq> CHR ''['' \<and> CHR '':'' \<notin> set h \<and> NUL \<notin> set h \<longrightarrow>
        parse_endpoint p (h @ '':'') = (Some h, Some p, None)
        \<and> parse_endpoint p (h @ ''::'') = (Some h, Some p, None)
        \<and> (q \<noteq> [] \<and> CHR '':'' \<notin> set q \<and> NUL \<notin> set q \<longrightarrow>
             parse_endpoint p (h @ '':'' @ q @ '':'') = (Some h, Some q, None)))
   \<and> (CHR '']'' \<notin> set b \<and> CHR ''/'' \<notin> set b \<and> NUL \<notin> set b \<longrightarrow>
        parse_endpoint p (''['' @ b @ '']'') = (Some b, Some p, None))"
  using parse_examples [of p] parse_trailing_colon [of h p] parse_two_trailing_colons [of h p]
    parse_port_trailing_colon [of h q p] parse_bracketed [of b p]
  by blast

theorem endpoint_parser_examples_witness:
  "''host'' \<noteq> [] \<and> hd ''host'' \<noteq> CHR ''['' \<and> CHR '':'' \<notin> set ''host'' \<and> NUL \<notin> set ''host''
   \<and> ''2947'' \<noteq> [] \<and> CHR '':'' \<notin> set ''2947'' \<and> NUL \<notin> set ''2947''
   \<and> CHR '']'' \<notin> set ''fe80::1'' \<and> CHR ''/'' \<notin> set ''fe80::1'' \<and> NUL \<notin> set ''fe80::1''
   \<and> parse_endpoint ''2947'' ''host:'' = (Some ''host'', Some ''2947'', None)
   \<and> parse_endpoint ''2947'' ''host:2947:'' = (Some ''host'', Some ''2947'', None)
   \<and> parse_endpoint ''2947'' ''[fe80::1]'' = (Some ''fe80::1'', Some ''2947'', None)"
  using endpoint_parser_examples [of "''2947''" "''host''" "''2947''" "''fe80::1''"]
  by (simp add: NUL_def)

section \<open>Properties of the export-method registry\<close>

lemma last_match_step:
  assumes "last_match tbl nm mp cur"
  shows "last_match tbl nm (Suc mp) (if name (tbl ! mp) = nm then Some mp else cur)"
  using assms by (auto simp: last_match_def less_Suc_eq split: option.splits)

lemma export_lookup_loop_last_match:
  "last_match tbl nm mp cur \<Longrightarrow> mp \<le> length tbl \<Longrightarrow>
   last_match tbl nm (length tbl) (export_lookup_loop tbl nm mp cur)"
proof (induction tbl nm mp cur rule: export_lookup_loop.induct)
  case (1 tbl nm mp cur)
  show ?case
  proof (cases "mp < length tbl")
    case True
    have "last_match tbl nm (length tbl)
            (export_lookup_loop tbl nm (Suc mp) (if name (tbl ! mp) = nm then Some mp else cur))"
      using "1.IH" [OF True last_match_step [OF "1.prems"(1)]] True by simp
    then show ?thesis using True by (subst export_lookup_loop.simps) simp
  next
    case False
    then have "mp = length tbl" using "1.prems"(2) by simp
    then show ?thesis using "1.prems"(1) by (subst export_lookup_loop.simps) simp
  qed
qed

lemma export_lookup_last_match: "last_match tbl nm (length tbl) (export_lookup tbl nm)"
  unfolding export_lookup_def
  by (rule export_lookup_loop_last_match) (simp_all add: last_match_def)

lemma last_match_unique:
  assumes "last_match tbl nm n r" and "last_match tbl nm n r'"
  shows "r = r'"
proof (cases r)
  case None
  then show ?thesis using assms by (cases r') (auto simp: last_match_def)
next
  case (Some i)
  show ?thesis
  proof (cases r')
    case None
    then show ?thesis using assms Some by (auto simp: last_match_def)
  next
    case (Some i')
    have "\<not> i < i'" and "\<not> i' < i"
      using assms \<open>r = Some i\<close> Some by (auto simp: last_match_def)
    then show ?thesis using \<open>r = Some i\<close> Some by simp
  qed
qed

text \<open>
  C7. For every table, \<open>export_default\<close> returns the first row, or NULL when the
  table is empty; \<open>export_lookup\<close> returns NULL exactly when no row has the name,
  and otherwise the last row that has it, so of two rows with one name the later
  one is returned.
\<close>

theorem export_registry_deterministic:
  "(tbl \<noteq> [] \<longrightarrow> export_default tbl = Some 0 \<and> row_at tbl (export_default tbl) = Some (hd tbl))
   \<and> (tbl = [] \<longrightarrow> export_default tbl = None)
   \<and> (export_lookup tbl nm = None \<longleftrightarrow> (\<forall>j<length tbl. name (tbl ! j) \<noteq> nm))
   \<and> (\<forall>i. export_lookup tbl nm = Some i \<longleftrightarrow>
            i < length tbl \<and> name (tbl ! i) = nm
            \<and> (\<forall>j<length tbl. i < j \<longrightarrow> name (tbl ! j) \<noteq> nm))"
proof -
  have d1: "tbl \<noteq> [] \<longrightarrow> export_default tbl = Some 0 \<and> row_at tbl (export_default tbl) = Some (hd tbl)"
    by (simp add: export_default_def row_at_def hd_conv_nth)
  have d2: "tbl = [] \<longrightarrow> export_default tbl = None"
    by (simp add: export_default_def)
  have r: "last_match tbl nm (length tbl) (export_lookup tbl nm)"
    by (rule export_lookup_last_match)
  have l1: "export_lookup tbl nm = None \<longleftrightarrow> (\<forall>j<length tbl. name (tbl ! j) \<noteq> nm)"
  proof
    assume "export_lookup tbl nm = None"
    then show "\<forall>j<length tbl. name (tbl ! j) \<noteq> nm" using r by (simp add: last_match_def)
  next
    assume "\<forall>j<length tbl. name (tbl ! j) \<noteq> nm"
    then have "last_match tbl nm (length tbl) None" by (simp add: last_match_def)
    then show "export_lookup tbl nm = None" using r by (rule last_match_unique [symmetric])
  qed
  have l2: "export_lookup tbl nm = Some i \<longleftrightarrow>
            i < length tbl \<and> name (tbl ! i) = nm
            \<and> (\<forall>j<length tbl. i < j \<longrightarrow> name (tbl ! j) \<noteq> nm)" for i
  proof
    assume "export_lookup tbl nm = Some i"
    then show "i < length tbl \<and> name (tbl ! i) = nm
            \<and> (\<forall>j<length tbl. i < j \<longrightarrow> name (tbl ! j) \<noteq> nm)"
      using r by (simp add: last_match_def)
  next
    assume "i < length tbl \<and> name (tbl ! i) = nm
            \<and> (\<forall>j<length tbl. i < j \<longrightarrow> name (tbl ! j) \<noteq> nm)"
    then have "last_match tbl nm (length tbl) (Some i)" by (simp add: last_match_def)
    then show "export_lookup tbl nm = Some i" using r by (rule last_match_unique [symmetric])
  qed
  show ?thesis using d1 d2 l1 l2 by blast
qed

theorem export_registry_deterministic_witness:
  "two_sockets \<noteq> []
   \<and> export_lookup two_sockets ''sockets'' = Some 2
   \<and> map_option description (row_at two_sockets (export_lookup two_sockets ''sockets'')) = Some ''second''
   \<and> map_option description (row_at two_sockets (export_default two_sockets)) = Some ''first''
   \<and> export_lookup two_sockets ''dbus'' = None
   \<and> export_default [] = None
   \<and> export_default (exportmethods False False False ''dbus-id'' ''shm-id'') = None
   \<and> map_option name (row_at (exportmethods True True True ''dbus-id'' ''shm-id'')
        (export_default (exportmethods True True True ''dbus-id'' ''shm-id''))) = Some ''dbus''"
proof -
  have len: "length two_sockets = 3" by (simp add: two_sockets_def)
  have n0: "name (two_sockets ! 0) = ''sockets''" and n1: "name (two_sockets ! 1) = ''shm''"
    and n2: "name (two_sockets ! 2) = ''sockets''"
    by (simp_all add: two_sockets_def)
  have last: "2 < length two_sockets \<and> name (two_sockets ! 2) = ''sockets''
        \<and> (\<forall>j<length two_sockets. 2 < j \<longrightarrow> name (two_sockets ! j) \<noteq> ''sockets'')"
    using len n2 by auto
  have a: "export_lookup two_sockets ''sockets'' = Some 2"
    using export_registry_deterministic [of two_sockets "''sockets''"] last by blast
  have none: "\<forall>j<length two_sockets. name (two_sockets ! j) \<noteq> ''dbus''"
    using len n0 n1 n2 by (auto simp: less_Suc_eq numeral_3_eq_3 numeral_2_eq_2)
  have b: "export_lookup two_sockets ''dbus'' = None"
    using export_registry_deterministic [of two_sockets "''dbus''"] none by blast
  have ne: "two_sockets \<noteq> []" using len by auto
  have c: "export_default two_sockets = Some 0"
    using export_registry_deterministic [of two_sockets "''sockets''"] ne by blast
  have d: "export_default [] = None"
    using export_registry_deterministic [of "[]" "''sockets''"] by blast
  have e: "export_default (exportmethods False False False ''dbus-id'' ''shm-id'') = None"
    using export_registry_deterministic [of "exportmethods False False False ''dbus-id'' ''shm-id''"
            "''sockets''"]
    by (simp add: exportmethods_def)
  have f: "export_default (exportmethods True True True ''dbus-id'' ''shm-id'') = Some 0"
    using export_registry_deterministic [of "exportmethods True True True ''dbus-id'' ''shm-id''"
            "''sockets''"]
    by (simp add: exportmethods_def)
  show ?thesis using ne unfolding a b c d e f
    by (simp add: row_at_def two_sockets_def exportmethods_def)
qed

end
